theory Spec2Isabelle
  imports Complex_Main "HOL-Library.AList" "HOL-Library.Multiset"
    "HOL-Library.Char_ord" "HOL-Library.List_Lexorder" "HOL-Library.Product_Lexorder"
begin

section \<open>Data model of \<open>src/server.js\<close>\<close>

text \<open>
  Instants (\<open>Date\<close> values and the ISO strings made from them) are milliseconds since the
  epoch, an \<open>int\<close>. Coordinates are JavaScript numbers, modelled as \<open>real\<close>; only their
  comparison with the schema bounds is used. Keys of a payload that the handlers never
  read are left out.
\<close>

record locationData =
  deviceId :: string
  driverName :: "string option"
  latitude :: real
  longitude :: real
  accuracy :: "real option"
  speed :: "real option"
  heading :: "real option"

text \<open>The payload of a location event: the keys above, and the \<open>timestamp\<close> and
  \<open>isOnline\<close> keys a client may send along.\<close>

record payload = locationData +
  clientTimestamp :: "int option"
  clientOnline :: "bool option"

text \<open>The object \<open>{...locationData, timestamp: new Date().toISOString(), isOnline: true}\<close>
  kept in the \<open>locations\<close> array.\<close>

record location = locationData +
  timestamp :: int
  isOnline :: bool

text \<open>An entry of the \<open>drivers\<close> map.\<close>

record driver =
  drv_deviceId :: string
  drv_driverName :: string
  drv_isOnline :: bool
  drv_lastSeen :: int
  drv_socketId :: "string option"

text \<open>Documents of the two collections (\<open>models/Driver.js\<close>, \<open>models/Location.js\<close>).\<close>

record driverDoc =
  dd_driverName :: string
  dd_isOnline :: bool
  dd_lastSeen :: int

record locationDoc =
  doc_deviceId :: string
  doc_driverName :: string
  doc_latitude :: real
  doc_longitude :: real
  doc_accuracy :: real
  doc_speed :: real
  doc_heading :: real
  doc_timestamp :: int
  doc_isOnline :: bool

datatype emit =
  DriversUpdated "driver list"
| LocationUpdate location

text \<open>
  The state of the process: the \<open>drivers\<close> map (a JavaScript \<open>Map\<close>, which keeps insertion
  order and one entry per key), the \<open>locations\<close> array, the two collections of the durable
  store, the \<open>deviceId\<close> property of each live socket, every event sent with \<open>io.emit\<close>, and
  every message written with \<open>console.error\<close>.
\<close>

record state =
  drivers :: "(string \<times> driver) list"
  locations :: "location list"
  Driver_coll :: "(string \<times> driverDoc) list"
  Location_coll :: "locationDoc list"
  socket_deviceId :: "(string \<times> string) list"
  emitted :: "emit list"
  errors :: "string list"

definition initial :: state where
  "initial = \<lparr>drivers = [], locations = [], Driver_coll = [], Location_coll = [],
     socket_deviceId = [], emitted = [], errors = []\<rparr>"

text \<open>
  \<open>startServer\<close>: with a durable store configured, the drivers that the store holds as
  online are loaded into the \<open>drivers\<close> map, without a socket; the \<open>locations\<close> array
  starts empty either way.
\<close>

definition startServer :: "bool \<Rightarrow> (string \<times> driverDoc) list \<Rightarrow> locationDoc list \<Rightarrow> state" where
  "startServer uri dbDrivers dbLocations =
     (if uri
      then initial\<lparr>Driver_coll := dbDrivers, Location_coll := dbLocations,
             drivers := fold (\<lambda>(d, doc). AList.update d
                                 \<lparr>drv_deviceId = d, drv_driverName = dd_driverName doc,
                                  drv_isOnline = dd_isOnline doc, drv_lastSeen = dd_lastSeen doc,
                                  drv_socketId = None\<rparr>)
                          (filter (\<lambda>(d, doc). dd_isOnline doc) dbDrivers) []\<rparr>
      else initial)"

subsection \<open>Array helpers\<close>

text \<open>\<open>Array.prototype.findIndex\<close>: the index of the first match, \<open>-1\<close> when there is none.\<close>

fun findIndex :: "('a \<Rightarrow> bool) \<Rightarrow> 'a list \<Rightarrow> int" where
  "findIndex P [] = - 1"
| "findIndex P (x # xs) =
     (if P x then 0 else (let i = findIndex P xs in if i < 0 then - 1 else i + 1))"

text \<open>\<open>xs.splice(start, 1)\<close>: a negative start counts from the end, and the start is
  clamped to the array.\<close>

definition splice1 :: "int \<Rightarrow> 'a list \<Rightarrow> 'a list" where
  "splice1 start xs =
     (let n = int (length xs);
          k = (if start < 0 then max (n + start) 0 else min start n)
      in take (nat k) xs @ drop (nat k + 1) xs)"

subsection \<open>The Location model\<close>

text \<open>
  \<open>new Location({...}).save()\<close> validates the document against the schema: \<open>deviceId\<close>
  and \<open>driverName\<close> are required strings (an empty string does not pass), \<open>latitude\<close> has
  \<open>min: -90, max: 90\<close>, \<open>longitude\<close> has \<open>min: -180, max: 180\<close>, and \<open>accuracy\<close>,
  \<open>speed\<close> and \<open>heading\<close> default to 0. \<open>None\<close> is the validation error.
\<close>

definition new_Location :: "location \<Rightarrow> locationDoc option" where
  "new_Location l =
     (if deviceId l = [] then None
      else case driverName l of
        None \<Rightarrow> None
      | Some n \<Rightarrow>
          if n = [] then None
          else if latitude l < - 90 \<or> 90 < latitude l then None
          else if longitude l < - 180 \<or> 180 < longitude l then None
          else Some \<lparr>doc_deviceId = deviceId l, doc_driverName = n,
                 doc_latitude = latitude l, doc_longitude = longitude l,
                 doc_accuracy = (case accuracy l of None \<Rightarrow> 0 | Some a \<Rightarrow> a),
                 doc_speed = (case speed l of None \<Rightarrow> 0 | Some a \<Rightarrow> a),
                 doc_heading = (case heading l of None \<Rightarrow> 0 | Some a \<Rightarrow> a),
                 doc_timestamp = timestamp l, doc_isOnline = isOnline l\<rparr>)"

text \<open>\<open>Driver.findOneAndUpdate({deviceId}, {...})\<close> without \<open>upsert\<close>: the document
  is changed when it exists.\<close>

definition findOneAndUpdate :: "string \<Rightarrow> (driverDoc \<Rightarrow> driverDoc) \<Rightarrow>
    (string \<times> driverDoc) list \<Rightarrow> (string \<times> driverDoc) list" where
  "findOneAndUpdate d f coll =
     (case map_of coll d of None \<Rightarrow> coll | Some doc \<Rightarrow> AList.update d (f doc) coll)"

subsection \<open>The socket handlers\<close>

text \<open>
  The Driver schema trims \<open>driverName\<close> when the store writes it; names are taken here as
  sent, so the collection and the map agree on names without blanks around them.
\<close>

text \<open>
  Every handler takes \<open>uri\<close> (whether \<open>process.env.MONGODB_URI\<close> is set), the clock
  reading \<open>now\<close> of this run of the handler, and for each awaited operation of the durable
  store whether it succeeds. The body of each handler is one \<open>try\<close> block: the first
  operation that throws ends it in the \<open>catch\<close>, which writes to \<open>console.error\<close>.
  A handler is one step: the reads and writes of the in-memory state all come after the
  last \<open>await\<close> of the handler and run without interruption, and the operations on the
  store are taken in the order of the handlers.
\<close>

definition register_driver ::
    "bool \<Rightarrow> int \<Rightarrow> bool \<Rightarrow> string \<Rightarrow> string \<Rightarrow> string \<Rightarrow> state \<Rightarrow> state" where
  "register_driver uri now db_ok sock d name s =
     (let driverData = \<lparr>drv_deviceId = d, drv_driverName = name, drv_isOnline = True,
            drv_lastSeen = now, drv_socketId = Some sock\<rparr>
      in if uri \<and> \<not> db_ok then s\<lparr>errors := errors s @ [''Error registering driver'']\<rparr>
         else
           let s1 = (if uri
                  then s\<lparr>Driver_coll := AList.update d
                         \<lparr>dd_driverName = name, dd_isOnline = True, dd_lastSeen = now\<rparr>
                         (Driver_coll s)\<rparr>
                  else s);
               ds = AList.update d driverData (drivers s1)
           in s1\<lparr>drivers := ds,
                 socket_deviceId := AList.update sock d (socket_deviceId s1),
                 emitted := emitted s1 @ [DriversUpdated (map snd ds)]\<rparr>)"

definition mk_location :: "payload \<Rightarrow> int \<Rightarrow> location" where
  "mk_location p now =
     \<lparr>deviceId = deviceId p, driverName = driverName p, latitude = latitude p,
      longitude = longitude p, accuracy = accuracy p, speed = speed p, heading = heading p,
      timestamp = now, isOnline = True\<rparr>"

text \<open>The part of the handler after the durable store: lines 244 to 265.\<close>

definition store_in_memory :: "int \<Rightarrow> location \<Rightarrow> state \<Rightarrow> state" where
  "store_in_memory now loc s =
     (let d = deviceId loc;
          pushed = locations s @ [loc];
          deviceLocations = filter (\<lambda>l. deviceId l = d) pushed;
          kept = (if 100 < length deviceLocations
                  then splice1 (findIndex (\<lambda>l. deviceId l = d) pushed) pushed
                  else pushed);
          ds = (case map_of (drivers s) d of
                  None \<Rightarrow> drivers s
                | Some drv \<Rightarrow>
                    AList.update d (drv\<lparr>drv_lastSeen := now, drv_isOnline := True\<rparr>) (drivers s))
      in s\<lparr>locations := kept, drivers := ds, emitted := emitted s @ [LocationUpdate loc]\<rparr>)"

definition location_update ::
    "bool \<Rightarrow> int \<Rightarrow> bool \<Rightarrow> bool \<Rightarrow> string \<Rightarrow> payload \<Rightarrow> state \<Rightarrow> state" where
  "location_update uri now save_ok upd_ok sock p s =
     (let loc = mk_location p now
      in if uri then
           (case new_Location loc of
              None \<Rightarrow> s\<lparr>errors := errors s @ [''Error saving location'']\<rparr>
            | Some doc \<Rightarrow>
                if \<not> save_ok then s\<lparr>errors := errors s @ [''Error saving location'']\<rparr>
                else
                  let s1 = s\<lparr>Location_coll := Location_coll s @ [doc]\<rparr>
                  in if \<not> upd_ok then s1\<lparr>errors := errors s1 @ [''Error saving location'']\<rparr>
                     else store_in_memory now loc
                            (s1\<lparr>Driver_coll := findOneAndUpdate (deviceId loc)
                                  (\<lambda>doc. doc\<lparr>dd_lastSeen := now, dd_isOnline := True\<rparr>)
                                  (Driver_coll s1)\<rparr>))
         else store_in_memory now loc s)"

text \<open>The socket object is gone after its \<open>disconnect\<close> event, and with it its
  \<open>deviceId\<close> property. \<open>if (socket.deviceId)\<close> is false for a socket that never
  registered and for the empty string.\<close>

definition disconnect :: "bool \<Rightarrow> int \<Rightarrow> bool \<Rightarrow> string \<Rightarrow> state \<Rightarrow> state" where
  "disconnect uri now db_ok sock s =
     (let gone = s\<lparr>socket_deviceId := AList.delete sock (socket_deviceId s)\<rparr>
      in case map_of (socket_deviceId s) sock of
           None \<Rightarrow> gone
         | Some d \<Rightarrow>
             if d = [] then gone
             else if uri \<and> \<not> db_ok
               then gone\<lparr>errors := errors gone @ [''Error updating driver status'']\<rparr>
             else
               let s1 = (if uri
                      then gone\<lparr>Driver_coll := findOneAndUpdate d
                             (\<lambda>doc. doc\<lparr>dd_isOnline := False, dd_lastSeen := now\<rparr>)
                             (Driver_coll gone)\<rparr>
                      else gone)
               in (case map_of (drivers s1) d of
                     None \<Rightarrow> s1
                   | Some drv \<Rightarrow>
                       let ds = AList.update d
                                 (drv\<lparr>drv_isOnline := False, drv_lastSeen := now\<rparr>) (drivers s1)
                       in s1\<lparr>drivers := ds,
                             emitted := emitted s1 @ [DriversUpdated (map snd ds)]\<rparr>))"

subsection \<open>The HTTP queries\<close>

text \<open>The memory branch of \<open>GET /api/locations/:deviceId\<close>:
  \<open>locations.filter(loc => loc.deviceId === deviceId)\<close>.\<close>

definition driverLocations :: "string \<Rightarrow> state \<Rightarrow> location list" where
  "driverLocations d s = filter (\<lambda>loc. deviceId loc = d) (locations s)"

text \<open>The durable branch: \<open>Location.find({deviceId}).sort({timestamp: -1}).limit(100)\<close>.\<close>

definition Location_find :: "string \<Rightarrow> locationDoc list \<Rightarrow> locationDoc list" where
  "Location_find d coll =
     take 100 (sort_key (\<lambda>x. - doc_timestamp x) (filter (\<lambda>x. doc_deviceId x = d) coll))"

datatype locations_body = FromMemory "location list" | FromStore "locationDoc list"

datatype 'a response = Json 'a | Status500

definition get_locations_of_device ::
    "bool \<Rightarrow> bool \<Rightarrow> string \<Rightarrow> state \<Rightarrow> locations_body response" where
  "get_locations_of_device uri db_ok d s =
     (if uri then (if db_ok then Json (FromStore (Location_find d (Location_coll s)))
                   else Status500)
      else Json (FromMemory (driverLocations d s)))"





subsection \<open>Runs of the server\<close>

datatype event =
  RegisterDriver string string string int bool
| LocationUpdateEv string payload int bool bool
| Disconnect string int bool

fun step :: "bool \<Rightarrow> event \<Rightarrow> state \<Rightarrow> state" where
  "step uri (RegisterDriver sock d name now db_ok) s = register_driver uri now db_ok sock d name s"
| "step uri (LocationUpdateEv sock p now save_ok upd_ok) s =
     location_update uri now save_ok upd_ok sock p s"
| "step uri (Disconnect sock now db_ok) s = disconnect uri now db_ok sock s"

definition run :: "bool \<Rightarrow> event list \<Rightarrow> state \<Rightarrow> state" where
  "run uri evs s = fold (step uri) evs s"

text \<open>Whether a location event reaches the in-memory part of its handler: always when
  no durable store is configured, and otherwise when the document passes validation and
  both operations of the store succeed.\<close>

definition accepted :: "bool \<Rightarrow> int \<Rightarrow> bool \<Rightarrow> bool \<Rightarrow> payload \<Rightarrow> bool" where
  "accepted uri now save_ok upd_ok p =
     (if uri then new_Location (mk_location p now) \<noteq> None \<and> save_ok \<and> upd_ok else True)"

text \<open>The location a location event leaves in memory, when it leaves one, and the
  locations a whole run has put there, oldest first.\<close>

fun sample_of :: "bool \<Rightarrow> event \<Rightarrow> location list" where
  "sample_of uri (LocationUpdateEv sock p now save_ok upd_ok) =
     (if accepted uri now save_ok upd_ok p then [mk_location p now] else [])"
| "sample_of uri (RegisterDriver sock d name now db_ok) = []"
| "sample_of uri (Disconnect sock now db_ok) = []"

definition recorded :: "bool \<Rightarrow> event list \<Rightarrow> location list" where
  "recorded uri evs = concat (map (sample_of uri) evs)"

definition lastn :: "nat \<Rightarrow> 'a list \<Rightarrow> 'a list" where
  "lastn k xs = drop (length xs - k) xs"








section \<open>The server that keeps everything in the durable store\<close>

text \<open>
  The second server of the repository (events \<open>registerDriver\<close>, \<open>sendLocation\<close>,
  \<open>syncLocations\<close>) has no in-memory copy of drivers or locations: its state is the
  \<open>activeConnections\<close> map and the two collections. Its Location schema has the fields of
  \<open>locationDoc\<close>, without bounds on the coordinates; its Driver schema has \<open>isActive\<close> and
  an optional \<open>currentLocation\<close>.
\<close>

record activeDriver =
  ad_driverName :: string
  ad_isActive :: bool
  ad_lastSeen :: int
  ad_currentLocation :: "(real \<times> real \<times> int) option"

record connectionInfo =
  ci_deviceId :: string
  ci_driverName :: string

text \<open>What \<open>io.emit\<close> sends to every client, and what \<open>socket.emit\<close> sends back on one
  connection.\<close>

datatype broadcast =
  DriversUpdate "(string \<times> activeDriver) list"
| LocationUpdateOut payload string

datatype reply =
  ErrorReply string
| SyncComplete nat
| SyncError string

record store_state =
  activeConnections :: "(string \<times> connectionInfo) list"
  Drivers :: "(string \<times> activeDriver) list"
  Locations :: "locationDoc list"
  io_emitted :: "broadcast list"
  socket_emitted :: "(string \<times> reply) list"
  logged :: "string list"

definition store_initial :: store_state where
  "store_initial = \<lparr>activeConnections = [], Drivers = [], Locations = [], io_emitted = [],
     socket_emitted = [], logged = []\<rparr>"

text \<open>
  The document \<open>new Location({...locationData, deviceId, timestamp: new
  Date(locationData.timestamp), isOnline})\<close>. Validation at \<open>save\<close> needs a non-empty
  \<open>deviceId\<close> and a valid date: \<open>new Date(undefined)\<close> is an invalid date, which the
  schema does not accept. \<open>driverName\<close> defaults to \<open>'Unknown Driver'\<close>. Every \<open>int\<close> is
  taken as a valid date; a number beyond the range of \<open>Date\<close> is an invalid date too, and
  its save fails, which is the case \<open>save_ok = False\<close> of the handlers.
\<close>

definition store_Location :: "payload \<Rightarrow> string \<Rightarrow> bool \<Rightarrow> locationDoc option" where
  "store_Location p d online =
     (if d = [] then None
      else case clientTimestamp p of
        None \<Rightarrow> None
      | Some t \<Rightarrow>
          Some \<lparr>doc_deviceId = d,
                doc_driverName = (case driverName p of None \<Rightarrow> ''Unknown Driver'' | Some n \<Rightarrow> n),
                doc_latitude = latitude p, doc_longitude = longitude p,
                doc_accuracy = (case accuracy p of None \<Rightarrow> 0 | Some a \<Rightarrow> a),
                doc_speed = (case speed p of None \<Rightarrow> 0 | Some a \<Rightarrow> a),
                doc_heading = (case heading p of None \<Rightarrow> 0 | Some a \<Rightarrow> a),
                doc_timestamp = t, doc_isOnline = online\<rparr>)"

text \<open>\<open>Driver.findOneAndUpdate({deviceId}, {driverName, isActive: true, lastSeen},
  {upsert: true})\<close>: an existing document keeps its \<open>currentLocation\<close>.\<close>

definition upsertDriver :: "string \<Rightarrow> string \<Rightarrow> int \<Rightarrow>
    (string \<times> activeDriver) list \<Rightarrow> (string \<times> activeDriver) list" where
  "upsertDriver d name now coll =
     AList.update d
       \<lparr>ad_driverName = name, ad_isActive = True, ad_lastSeen = now,
        ad_currentLocation = (case map_of coll d of None \<Rightarrow> None
                              | Some doc \<Rightarrow> ad_currentLocation doc)\<rparr>
       coll"

definition updateDriver :: "string \<Rightarrow> (activeDriver \<Rightarrow> activeDriver) \<Rightarrow>
    (string \<times> activeDriver) list \<Rightarrow> (string \<times> activeDriver) list" where
  "updateDriver d f coll =
     (case map_of coll d of None \<Rightarrow> coll | Some doc \<Rightarrow> AList.update d (f doc) coll)"

definition registerDriver ::
    "int \<Rightarrow> bool \<Rightarrow> bool \<Rightarrow> string \<Rightarrow> string \<Rightarrow> string \<Rightarrow> store_state \<Rightarrow> store_state" where
  "registerDriver now upsert_ok find_ok sock d name s =
     (let failed = (\<lambda>t. t\<lparr>logged := logged t @ [''Driver registration error''],
                          socket_emitted := socket_emitted t
                            @ [(sock, ErrorReply ''Failed to register driver'')]\<rparr>)
      in if \<not> upsert_ok then failed s
         else
           let s1 = s\<lparr>Drivers := upsertDriver d name now (Drivers s),
                      activeConnections := AList.update sock
                        \<lparr>ci_deviceId = d, ci_driverName = name\<rparr> (activeConnections s)\<rparr>
           in if \<not> find_ok then failed s1
              else s1\<lparr>io_emitted := io_emitted s1
                         @ [DriversUpdate (filter (\<lambda>(k, doc). ad_isActive doc) (Drivers s1))]\<rparr>)"

definition sendLocation ::
    "int \<Rightarrow> bool \<Rightarrow> bool \<Rightarrow> string \<Rightarrow> payload \<Rightarrow> store_state \<Rightarrow> store_state" where
  "sendLocation now save_ok upd_ok sock p s =
     (let failed = (\<lambda>t. t\<lparr>logged := logged t @ [''Location save error''],
                          socket_emitted := socket_emitted t
                            @ [(sock, ErrorReply ''Failed to save location'')]\<rparr>)
      in case map_of (activeConnections s) sock of
           None \<Rightarrow> s\<lparr>socket_emitted := socket_emitted s
                        @ [(sock, ErrorReply ''Driver not registered'')]\<rparr>
         | Some info \<Rightarrow>
             (case store_Location p (ci_deviceId info) True of
                None \<Rightarrow> failed s
              | Some doc \<Rightarrow>
                  if \<not> save_ok then failed s
                  else
                    let s1 = s\<lparr>Locations := Locations s @ [doc]\<rparr>
                    in if \<not> upd_ok then failed s1
                       else s1\<lparr>Drivers := updateDriver (ci_deviceId info)
                                  (\<lambda>doc. doc\<lparr>ad_currentLocation :=
                                             Some (latitude p, longitude p, now),
                                           ad_lastSeen := now\<rparr>)
                                  (Drivers s1),
                               io_emitted := io_emitted s1
                                 @ [LocationUpdateOut
                                      (p\<lparr>deviceId := ci_deviceId info,
                                         driverName := Some (ci_driverName info)\<rparr>) sock]\<rparr>))"

text \<open>\<open>Location.insertMany\<close> validates every document first and inserts none when one
  of them fails (\<open>those\<close> is \<open>None\<close> as soon as one element is).\<close>

definition syncLocations ::
    "bool \<Rightarrow> string \<Rightarrow> payload list \<Rightarrow> store_state \<Rightarrow> store_state" where
  "syncLocations insert_ok sock locationsArray s =
     (let failed = (\<lambda>t. t\<lparr>logged := logged t @ [''Bulk location sync error''],
                          socket_emitted := socket_emitted t
                            @ [(sock, SyncError ''Failed to sync offline locations'')]\<rparr>)
      in case map_of (activeConnections s) sock of
           None \<Rightarrow> s\<lparr>socket_emitted := socket_emitted s
                        @ [(sock, ErrorReply ''Driver not registered'')]\<rparr>
         | Some info \<Rightarrow>
             (case those (map (\<lambda>loc. store_Location loc (ci_deviceId info) False)
                                 locationsArray) of
                None \<Rightarrow> failed s
              | Some docs \<Rightarrow>
                  if \<not> insert_ok then failed s
                  else
                    let s1 = s\<lparr>Locations := Locations s @ docs,
                               socket_emitted := socket_emitted s
                                 @ [(sock, SyncComplete (length locationsArray))]\<rparr>
                    in (case locationsArray of
                          [] \<Rightarrow> s1
                        | x # xs \<Rightarrow>
                            s1\<lparr>io_emitted := io_emitted s1
                                 @ [LocationUpdateOut
                                      ((last (x # xs))\<lparr>deviceId := ci_deviceId info,
                                         driverName := Some (ci_driverName info)\<rparr>) sock]\<rparr>)))"

text \<open>The \<open>disconnect\<close> handler of this server: \<open>lastSeen\<close> is refreshed inside a
  \<open>try\<close>, and the connection is forgotten after it either way.\<close>

definition disconnect_store :: "int \<Rightarrow> bool \<Rightarrow> string \<Rightarrow> store_state \<Rightarrow> store_state" where
  "disconnect_store now db_ok sock s =
     (case map_of (activeConnections s) sock of
        None \<Rightarrow> s
      | Some info \<Rightarrow>
          (let s1 = (if db_ok
                     then s\<lparr>Drivers := updateDriver (ci_deviceId info)
                              (\<lambda>doc. doc\<lparr>ad_lastSeen := now\<rparr>) (Drivers s)\<rparr>
                     else s\<lparr>logged := logged s @ [''Error updating driver on disconnect'']\<rparr>)
           in s1\<lparr>activeConnections := AList.delete sock (activeConnections s1)\<rparr>))"

text \<open>The periodic task: \<open>Driver.updateMany({lastSeen: {$lt: fiveMinutesAgo}},
  {isActive: false})\<close>.\<close>

definition cleanup :: "int \<Rightarrow> bool \<Rightarrow> store_state \<Rightarrow> store_state" where
  "cleanup now db_ok s =
     (let fiveMinutesAgo = now - 5 * 60 * 1000
      in if db_ok
         then s\<lparr>Drivers := map (\<lambda>(d, doc). if ad_lastSeen doc < fiveMinutesAgo
                                            then (d, doc\<lparr>ad_isActive := False\<rparr>)
                                            else (d, doc))
                               (Drivers s)\<rparr>
         else s\<lparr>logged := logged s @ [''Error cleaning up inactive drivers'']\<rparr>)"

text \<open>\<open>GET /api/drivers\<close> and \<open>GET /api/locations/:deviceId?hours=\<close> of this
  server; \<open>hours\<close> defaults to 24.\<close>

definition store_get_drivers :: "bool \<Rightarrow> store_state \<Rightarrow> (string \<times> activeDriver) list response" where
  "store_get_drivers db_ok s =
     (if db_ok
      then Json (sort_key (\<lambda>(d, doc). - ad_lastSeen doc)
                   (filter (\<lambda>(d, doc). ad_isActive doc) (Drivers s)))
      else Status500)"


subsection \<open>Runs of the store-backed server\<close>

datatype store_event =
  RegisterDriverEv string string string int bool bool
| SendLocationEv string payload int bool bool
| SyncLocationsEv string "payload list" bool
| DisconnectEv string int bool
| CleanupEv int bool

fun store_step :: "store_event \<Rightarrow> store_state \<Rightarrow> store_state" where
  "store_step (RegisterDriverEv sock d name now upsert_ok find_ok) s =
     registerDriver now upsert_ok find_ok sock d name s"
| "store_step (SendLocationEv sock p now save_ok upd_ok) s = sendLocation now save_ok upd_ok sock p s"
| "store_step (SyncLocationsEv sock ps insert_ok) s = syncLocations insert_ok sock ps s"
| "store_step (DisconnectEv sock now db_ok) s = disconnect_store now db_ok sock s"
| "store_step (CleanupEv now db_ok) s = cleanup now db_ok s"

definition store_run :: "store_event list \<Rightarrow> store_state \<Rightarrow> store_state" where
  "store_run evs s = fold store_step evs s"



text \<open>Whether the collection holds a document of the device that is marked inactive.\<close>

definition inactive :: "string \<Rightarrow> store_state \<Rightarrow> bool" where
  "inactive d s = (case map_of (Drivers s) d of None \<Rightarrow> False | Some doc \<Rightarrow> \<not> ad_isActive doc)"

text \<open>Whether the collection holds a document of the device that is marked active, and
  whether an event is a tick of the cleanup task.\<close>

definition active :: "string \<Rightarrow> store_state \<Rightarrow> bool" where
  "active d s = (case map_of (Drivers s) d of None \<Rightarrow> False | Some doc \<Rightarrow> ad_isActive doc)"

fun is_cleanup :: "store_event \<Rightarrow> bool" where
  "is_cleanup (CleanupEv now db_ok) = True"
| "is_cleanup (RegisterDriverEv sock d name now upsert_ok find_ok) = False"
| "is_cleanup (SendLocationEv sock p now save_ok upd_ok) = False"
| "is_cleanup (SyncLocationsEv sock ps insert_ok) = False"
| "is_cleanup (DisconnectEv sock now db_ok) = False"






section \<open>Sample data\<close>

definition example_payload :: payload where
  "example_payload = \<lparr>deviceId = ''D1'', driverName = Some ''Alice'', latitude = 40.7128,
     longitude = - 74.006, accuracy = Some 5, speed = None, heading = None,
     clientTimestamp = Some 1, clientOnline = Some False\<rparr>"

definition full_buffer :: state where
  "full_buffer = initial\<lparr>locations := replicate 100 (mk_location example_payload 0)\<rparr>"

definition out_of_range_payload :: payload where
  "out_of_range_payload = example_payload\<lparr>latitude := 91, longitude := 200\<rparr>"

definition registered_mem :: state where
  "registered_mem = register_driver False 1 True ''sock1'' ''D1'' ''Alice'' initial"

definition registered_db :: state where
  "registered_db = register_driver True 1 True ''sock1'' ''D1'' ''Alice'' initial"

definition store_registered :: store_state where
  "store_registered = registerDriver 1 True True ''sock1'' ''D1'' ''Alice'' store_initial"






section \<open>Facts about the array helpers\<close>

lemma findIndex_takeWhile:
  "\<exists>x\<in>set xs. P x \<Longrightarrow> findIndex P xs = int (length (takeWhile (\<lambda>x. \<not> P x) xs))"
proof (induction xs)
  case Nil then show ?case by simp
next
  case (Cons a xs)
  show ?case
  proof (cases "P a")
    case True then show ?thesis by simp
  next
    case False
    with Cons.prems have "\<exists>x\<in>set xs. P x" by auto
    from Cons.IH[OF this] False show ?thesis by (simp add: Let_def)
  qed
qed

lemma splice1_findIndex:
  assumes "\<exists>x\<in>set xs. P x"
  shows "splice1 (findIndex P xs) xs =
         takeWhile (\<lambda>x. \<not> P x) xs @ tl (dropWhile (\<lambda>x. \<not> P x) xs)"
proof -
  let ?k = "length (takeWhile (\<lambda>x. \<not> P x) xs)"
  have lt: "?k < length xs"
  proof -
    have "takeWhile (\<lambda>x. \<not> P x) xs \<noteq> xs"
      using assms by (simp add: takeWhile_eq_all_conv)
    then have "?k \<noteq> length xs"
      by (metis takeWhile_eq_take take_all_iff order_refl)
    moreover have "?k \<le> length xs" by (rule length_takeWhile_le)
    ultimately show ?thesis by linarith
  qed
  have t: "take ?k xs = takeWhile (\<lambda>x. \<not> P x) xs"
    by (rule takeWhile_eq_take[symmetric])
  have "dropWhile (\<lambda>x. \<not> P x) xs = drop ?k xs"
    by (rule dropWhile_eq_drop)
  then have d: "drop (?k + 1) xs = tl (dropWhile (\<lambda>x. \<not> P x) xs)"
    by (simp add: drop_Suc tl_drop)
  show ?thesis
    using lt t d by (simp add: splice1_def findIndex_takeWhile[OF assms] Let_def min_def)
qed

lemma filter_remove_first_same:
  "filter P (takeWhile (\<lambda>x. \<not> P x) xs @ tl (dropWhile (\<lambda>x. \<not> P x) xs)) = tl (filter P xs)"
  by (induction xs) auto

lemma filter_remove_first_other:
  "(\<And>x. Q x \<Longrightarrow> \<not> P x) \<Longrightarrow>
   filter Q (takeWhile (\<lambda>x. \<not> P x) xs @ tl (dropWhile (\<lambda>x. \<not> P x) xs)) = filter Q xs"
  by (induction xs) auto

section \<open>The history buffer\<close>

lemma locations_store_in_memory:
  "locations (store_in_memory now loc s) =
     (if 100 < length (driverLocations (deviceId loc) s) + 1
      then takeWhile (\<lambda>l. deviceId l \<noteq> deviceId loc) (locations s @ [loc]) @
           tl (dropWhile (\<lambda>l. deviceId l \<noteq> deviceId loc) (locations s @ [loc]))
      else locations s @ [loc])"
proof -
  have ex: "\<exists>x\<in>set (locations s @ [loc]). deviceId x = deviceId loc" by simp
  show ?thesis
    unfolding store_in_memory_def Let_def
    using splice1_findIndex[OF ex]
    by (simp add: driverLocations_def)
qed

lemma driverLocations_store_same:
  "driverLocations (deviceId loc) (store_in_memory now loc s) =
     (if 100 \<le> length (driverLocations (deviceId loc) s)
      then tl (driverLocations (deviceId loc) s @ [loc])
      else driverLocations (deviceId loc) s @ [loc])"
  using filter_remove_first_same[of "\<lambda>l. deviceId l = deviceId loc" "locations s @ [loc]"]
  by (simp add: driverLocations_def locations_store_in_memory)

lemma driverLocations_store_other:
  "d \<noteq> deviceId loc \<Longrightarrow>
   driverLocations d (store_in_memory now loc s) = driverLocations d s"
  using filter_remove_first_other[of "\<lambda>l. deviceId l = d" "\<lambda>l. deviceId l = deviceId loc" "locations s @ [loc]"]
  by (simp add: driverLocations_def locations_store_in_memory)


lemma locations_register_driver [simp]:
  "locations (register_driver uri now db_ok sock d name s) = locations s"
  by (simp add: register_driver_def Let_def)

lemma locations_disconnect [simp]:
  "locations (disconnect uri now db_ok sock s) = locations s"
  by (simp add: disconnect_def Let_def split: option.splits)

lemma locations_store_cong:
  "locations s = locations s' \<Longrightarrow>
   locations (store_in_memory now loc s) = locations (store_in_memory now loc s')"
  by (simp add: locations_store_in_memory driverLocations_def)

lemma locations_location_update:
  "locations (location_update uri now save_ok upd_ok sock p s) =
     (if accepted uri now save_ok upd_ok p
      then locations (store_in_memory now (mk_location p now) s)
      else locations s)"
  by (auto simp: location_update_def accepted_def Let_def split: option.splits
           intro!: locations_store_cong)

lemma deviceId_mk_location [simp]: "deviceId (mk_location p now) = deviceId p"
  by (simp add: mk_location_def)

lemma driverLocations_step_le:
  assumes "length (driverLocations d s) \<le> 100"
  shows "length (driverLocations d (step uri ev s)) \<le> 100"
proof (cases ev)
  case (RegisterDriver sock d' name now db_ok)
  then show ?thesis using assms by (simp add: driverLocations_def)
next
  case (Disconnect sock now db_ok)
  then show ?thesis using assms by (simp add: driverLocations_def)
next
  case (LocationUpdateEv sock p now save_ok upd_ok)
  let ?loc = "mk_location p now"
  show ?thesis
  proof (cases "accepted uri now save_ok upd_ok p")
    case False
    then show ?thesis using assms LocationUpdateEv
      by (simp add: driverLocations_def locations_location_update)
  next
    case True
    have eq: "driverLocations d (step uri ev s) = driverLocations d (store_in_memory now ?loc s)"
      using True LocationUpdateEv by (simp add: driverLocations_def locations_location_update)
    show ?thesis
    proof (cases "d = deviceId ?loc")
      case True
      then show ?thesis using assms eq driverLocations_store_same[of ?loc now s] by auto
    next
      case False
      then show ?thesis using assms eq driverLocations_store_other[of d ?loc now s] by simp
    qed
  qed
qed

lemma driverLocations_run_le:
  "length (driverLocations d s) \<le> 100 \<Longrightarrow> length (driverLocations d (run uri evs s)) \<le> 100"
  unfolding run_def
  by (induction evs arbitrary: s) (simp_all add: driverLocations_step_le)

lemma driverLocations_initial [simp]: "driverLocations d initial = []"
  by (simp add: driverLocations_def initial_def)

lemma driverLocations_startServer [simp]:
  "driverLocations d (startServer uri dbDrivers dbLocations) = []"
  by (simp add: driverLocations_def startServer_def initial_def)

lemma lastn_lastn_append: "lastn k (lastn k xs @ ys) = lastn k (xs @ ys)"
  by (cases "k \<le> length xs") (simp_all add: lastn_def add.commute)

lemma lastn_id: "length xs \<le> k \<Longrightarrow> lastn k xs = xs"
  by (simp add: lastn_def)

lemma driverLocations_step:
  assumes "length (driverLocations d s) \<le> 100"
  shows "driverLocations d (step uri ev s) =
         lastn 100 (driverLocations d s @ filter (\<lambda>l. deviceId l = d) (sample_of uri ev))"
proof (cases ev)
  case (RegisterDriver sock d' name now db_ok)
  then show ?thesis using assms by (simp add: driverLocations_def lastn_id)
next
  case (Disconnect sock now db_ok)
  then show ?thesis using assms by (simp add: driverLocations_def lastn_id)
next
  case (LocationUpdateEv sock p now save_ok upd_ok)
  let ?loc = "mk_location p now"
  show ?thesis
  proof (cases "accepted uri now save_ok upd_ok p")
    case False
    then show ?thesis using assms LocationUpdateEv
      by (simp add: driverLocations_def locations_location_update lastn_id)
  next
    case True
    have eq: "driverLocations d (step uri ev s) = driverLocations d (store_in_memory now ?loc s)"
      using True LocationUpdateEv by (simp add: driverLocations_def locations_location_update)
    show ?thesis
    proof (cases "d = deviceId ?loc")
      case d: True
      show ?thesis
      proof (cases "length (driverLocations d s) = 100")
        case True
        then have "driverLocations d s \<noteq> []" by auto
        then show ?thesis
          using True d eq LocationUpdateEv \<open>accepted uri now save_ok upd_ok p\<close>
            driverLocations_store_same[of ?loc now s]
          by (cases "driverLocations d s") (simp_all add: lastn_def)
      next
        case False
        with assms have "length (driverLocations d s) < 100" by simp
        then show ?thesis
          using d eq LocationUpdateEv \<open>accepted uri now save_ok upd_ok p\<close>
            driverLocations_store_same[of ?loc now s]
          by (simp add: lastn_def)
      qed
    next
      case False
      then show ?thesis
        using assms eq LocationUpdateEv True driverLocations_store_other[of d ?loc now s]
        by (simp add: lastn_id)
    qed
  qed
qed

lemma driverLocations_run:
  "length (driverLocations d s) \<le> 100 \<Longrightarrow>
   driverLocations d (run uri evs s) =
     lastn 100 (driverLocations d s @ filter (\<lambda>l. deviceId l = d) (recorded uri evs))"
proof (induction evs arbitrary: s)
  case Nil
  then show ?case by (simp add: run_def recorded_def lastn_id)
next
  case (Cons ev evs)
  have le: "length (driverLocations d (step uri ev s)) \<le> 100"
    using Cons.prems by (rule driverLocations_step_le)
  have "driverLocations d (run uri (ev # evs) s) = driverLocations d (run uri evs (step uri ev s))"
    by (simp add: run_def)
  also have "\<dots> = lastn 100 (driverLocations d (step uri ev s) @
                       filter (\<lambda>l. deviceId l = d) (recorded uri evs))"
    by (rule Cons.IH[OF le])
  also have "\<dots> = lastn 100 (driverLocations d s @
                       filter (\<lambda>l. deviceId l = d) (recorded uri (ev # evs)))"
    by (simp add: driverLocations_step[OF Cons.prems] lastn_lastn_append recorded_def)
  finally show ?case .
qed

lemma example_payload_simps [simp]:
  "deviceId example_payload = ''D1''"
  by (simp add: example_payload_def)

lemma full_buffer_D1: "driverLocations ''D1'' full_buffer = replicate 100 (mk_location example_payload 0)"
  by (simp add: driverLocations_def full_buffer_def)

text \<open>
  Claim C5. Whatever events the server has handled since it started, the \<open>locations\<close>
  array holds, for every device, exactly the last 100 locations recorded for it, so never
  more than 100. A location event that is recorded when the device already has 100
  entries drops the device's oldest entry and appends the new one, and the entries of
  every other device stay as they were.
\<close>

theorem history_buffer_cap:
  "driverLocations d (run uri evs (startServer uri dbDrivers dbLocations))
     = lastn 100 (filter (\<lambda>l. deviceId l = d) (recorded uri evs))
   \<and> length (driverLocations d (run uri evs (startServer uri dbDrivers dbLocations))) \<le> 100
   \<and> (accepted uri now save_ok upd_ok p \<and> length (driverLocations (deviceId p) s) = 100 \<longrightarrow>
        driverLocations (deviceId p) (location_update uri now save_ok upd_ok sock p s)
          = tl (driverLocations (deviceId p) s) @ [mk_location p now])
   \<and> (d' \<noteq> deviceId p \<longrightarrow>
        driverLocations d' (location_update uri now save_ok upd_ok sock p s)
          = driverLocations d' s)"
proof (intro conjI impI)
  show "driverLocations d (run uri evs (startServer uri dbDrivers dbLocations))
     = lastn 100 (filter (\<lambda>l. deviceId l = d) (recorded uri evs))"
    using driverLocations_run[of d "startServer uri dbDrivers dbLocations" uri evs] by simp
next
  show "length (driverLocations d (run uri evs (startServer uri dbDrivers dbLocations))) \<le> 100"
    by (rule driverLocations_run_le) simp
next
  assume a: "accepted uri now save_ok upd_ok p \<and> length (driverLocations (deviceId p) s) = 100"
  then have ne: "driverLocations (deviceId p) s \<noteq> []" by auto
  have "driverLocations (deviceId p) (location_update uri now save_ok upd_ok sock p s)
        = driverLocations (deviceId p) (store_in_memory now (mk_location p now) s)"
    using a by (simp add: driverLocations_def locations_location_update)
  also have "\<dots> = tl (driverLocations (deviceId p) s @ [mk_location p now])"
    using a driverLocations_store_same[of "mk_location p now" now s] by simp
  finally show "driverLocations (deviceId p) (location_update uri now save_ok upd_ok sock p s)
          = tl (driverLocations (deviceId p) s) @ [mk_location p now]"
    using ne by simp
next
  assume d: "d' \<noteq> deviceId p"
  show "driverLocations d' (location_update uri now save_ok upd_ok sock p s) = driverLocations d' s"
  proof (cases "accepted uri now save_ok upd_ok p")
    case True
    then have "driverLocations d' (location_update uri now save_ok upd_ok sock p s)
        = driverLocations d' (store_in_memory now (mk_location p now) s)"
      by (simp add: driverLocations_def locations_location_update)
    then show ?thesis using d driverLocations_store_other[of d' "mk_location p now" now s] by simp
  next
    case False
    then show ?thesis by (simp add: driverLocations_def locations_location_update)
  qed
qed

theorem history_buffer_cap_witness:
  "accepted False 7 True True example_payload
   \<and> length (driverLocations ''D1'' full_buffer) = 100
   \<and> driverLocations ''D1'' (location_update False 7 True True ''sock1'' example_payload full_buffer)
       = replicate 99 (mk_location example_payload 0) @ [mk_location example_payload 7]
   \<and> ''D2'' \<noteq> deviceId example_payload
   \<and> driverLocations ''D2'' (location_update False 7 True True ''sock1'' example_payload full_buffer)
       = []"
proof -
  have a: "accepted False 7 True True example_payload" by (simp add: accepted_def)
  have l: "length (driverLocations ''D1'' full_buffer) = 100" by (simp add: full_buffer_D1)
  have t: "tl (replicate 100 (mk_location example_payload 0)) = replicate 99 (mk_location example_payload 0)"
    by (simp add: tl_replicate)
  have o: "driverLocations ''D2'' full_buffer = []"
    by (simp add: driverLocations_def full_buffer_def)
  show ?thesis
    using history_buffer_cap[where uri = False and now = 7 and save_ok = True and upd_ok = True
        and p = example_payload and s = full_buffer and sock = "''sock1''" and d' = "''D2''"
        and d = "''D1''" and evs = "[]" and dbDrivers = "[]" and dbLocations = "[]"] a l t o
    by (simp add: full_buffer_D1)
qed

section \<open>Sample states\<close>

lemma registered_db_eq:
  "registered_db =
     \<lparr>drivers = [(''D1'', \<lparr>drv_deviceId = ''D1'', drv_driverName = ''Alice'', drv_isOnline = True,
                    drv_lastSeen = 1, drv_socketId = Some ''sock1''\<rparr>)],
      locations = [],
      Driver_coll = [(''D1'', \<lparr>dd_driverName = ''Alice'', dd_isOnline = True, dd_lastSeen = 1\<rparr>)],
      Location_coll = [],
      socket_deviceId = [(''sock1'', ''D1'')],
      emitted = [DriversUpdated [\<lparr>drv_deviceId = ''D1'', drv_driverName = ''Alice'',
                    drv_isOnline = True, drv_lastSeen = 1, drv_socketId = Some ''sock1''\<rparr>]],
      errors = []\<rparr>"
  by (simp add: registered_db_def register_driver_def initial_def Let_def)

lemma registered_mem_eq:
  "registered_mem =
     \<lparr>drivers = [(''D1'', \<lparr>drv_deviceId = ''D1'', drv_driverName = ''Alice'', drv_isOnline = True,
                    drv_lastSeen = 1, drv_socketId = Some ''sock1''\<rparr>)],
      locations = [],
      Driver_coll = [],
      Location_coll = [],
      socket_deviceId = [(''sock1'', ''D1'')],
      emitted = [DriversUpdated [\<lparr>drv_deviceId = ''D1'', drv_driverName = ''Alice'',
                    drv_isOnline = True, drv_lastSeen = 1, drv_socketId = Some ''sock1''\<rparr>]],
      errors = []\<rparr>"
  by (simp add: registered_mem_def register_driver_def initial_def Let_def)

lemma example_payload_valid:
  "new_Location (mk_location example_payload now) =
     Some \<lparr>doc_deviceId = ''D1'', doc_driverName = ''Alice'', doc_latitude = 40.7128,
           doc_longitude = - 74.006, doc_accuracy = 5, doc_speed = 0, doc_heading = 0,
           doc_timestamp = now, doc_isOnline = True\<rparr>"
  by (simp add: new_Location_def mk_location_def example_payload_def)

lemma store_registered_eq:
  "store_registered =
     \<lparr>activeConnections = [(''sock1'', \<lparr>ci_deviceId = ''D1'', ci_driverName = ''Alice''\<rparr>)],
      Drivers = [(''D1'', \<lparr>ad_driverName = ''Alice'', ad_isActive = True, ad_lastSeen = 1,
                   ad_currentLocation = None\<rparr>)],
      Locations = [],
      io_emitted = [DriversUpdate [(''D1'', \<lparr>ad_driverName = ''Alice'', ad_isActive = True,
                      ad_lastSeen = 1, ad_currentLocation = None\<rparr>)]],
      socket_emitted = [], logged = []\<rparr>"
  by (simp add: store_registered_def registerDriver_def store_initial_def Let_def upsertDriver_def)

section \<open>A failed write to the durable store\<close>

text \<open>
  Claim C1, as amended. With a durable store configured, when the write of a location
  sample (or the update of the driver document after it) fails, the handler of
  \<open>location-update\<close> writes the failure to the error log and ends: nothing is appended to
  the \<open>locations\<close> array, no entry of the \<open>drivers\<close> map is touched and nothing is
  broadcast. The in-memory state after a failed write is the in-memory state before the
  event, not the one a successful write leaves.
\<close>

theorem failed_write_skips_memory:
  assumes "uri" and "\<not> (save_ok \<and> upd_ok)"
  shows "locations (location_update uri now save_ok upd_ok sock p s) = locations s
       \<and> drivers (location_update uri now save_ok upd_ok sock p s) = drivers s
       \<and> emitted (location_update uri now save_ok upd_ok sock p s) = emitted s
       \<and> socket_deviceId (location_update uri now save_ok upd_ok sock p s) = socket_deviceId s
       \<and> Driver_coll (location_update uri now save_ok upd_ok sock p s) = Driver_coll s
       \<and> errors (location_update uri now save_ok upd_ok sock p s)
           = errors s @ [''Error saving location'']"
  using assms by (auto simp: location_update_def Let_def split: option.splits)

theorem failed_write_skips_memory_witness:
  "locations (location_update True 7 False True ''sock1'' example_payload registered_db) = []
   \<and> drivers (location_update True 7 False True ''sock1'' example_payload registered_db)
       = drivers registered_db
   \<and> emitted (location_update True 7 False True ''sock1'' example_payload registered_db)
       = emitted registered_db
   \<and> errors (location_update True 7 False True ''sock1'' example_payload registered_db)
       = [''Error saving location'']"
  using failed_write_skips_memory[of True False True 7 "''sock1''" example_payload registered_db]
  by (simp add: registered_db_eq)

theorem failed_write_counterexample:
  "locations (location_update True 7 False True ''sock1'' example_payload registered_db) = []
   \<and> locations (location_update True 7 True True ''sock1'' example_payload registered_db)
       = [mk_location example_payload 7]
   \<and> emitted (location_update True 7 False True ''sock1'' example_payload registered_db)
       = emitted registered_db
   \<and> emitted (location_update True 7 True True ''sock1'' example_payload registered_db)
       = emitted registered_db @ [LocationUpdate (mk_location example_payload 7)]
   \<and> map_of (drivers (location_update True 7 False True ''sock1'' example_payload registered_db)) ''D1''
       = Some \<lparr>drv_deviceId = ''D1'', drv_driverName = ''Alice'', drv_isOnline = True,
               drv_lastSeen = 1, drv_socketId = Some ''sock1''\<rparr>
   \<and> map_of (drivers (location_update True 7 True True ''sock1'' example_payload registered_db)) ''D1''
       = Some \<lparr>drv_deviceId = ''D1'', drv_driverName = ''Alice'', drv_isOnline = True,
               drv_lastSeen = 7, drv_socketId = Some ''sock1''\<rparr>"
  by (simp add: location_update_def example_payload_valid store_in_memory_def Let_def
      registered_db_eq findOneAndUpdate_def)

section \<open>Location events from connections that never registered\<close>

text \<open>The handler of \<open>sendLocation\<close> in the store-backed server answers an unregistered
  connection with an error and changes nothing else.\<close>

lemma sendLocation_unregistered:
  "map_of (activeConnections s) sock = None \<Longrightarrow>
   sendLocation now save_ok upd_ok sock p s
     = s\<lparr>socket_emitted := socket_emitted s @ [(sock, ErrorReply ''Driver not registered'')]\<rparr>"
  by (simp add: sendLocation_def Let_def)

text \<open>The handler of \<open>location-update\<close> does the same on every connection.\<close>

lemma location_update_ignores_socket:
  "location_update uri now save_ok upd_ok sock p s = location_update uri now save_ok upd_ok sock' p s"
  by (simp add: location_update_def)

text \<open>
  Claim C2 at a failing input. The handler of \<open>location-update\<close> never looks at the
  socket's registration: a sample sent on the fresh connection \<open>sock9\<close> is appended to the
  \<open>locations\<close> array, refreshes the driver entry that another connection registered, is
  broadcast, and (with a durable store) is saved, and no error is written.
\<close>

theorem unregistered_location_update_recorded:
  "map_of (socket_deviceId registered_mem) ''sock9'' = None
   \<and> locations (location_update False 7 True True ''sock9'' example_payload registered_mem)
       = [mk_location example_payload 7]
   \<and> map_of (drivers (location_update False 7 True True ''sock9'' example_payload registered_mem)) ''D1''
       = Some \<lparr>drv_deviceId = ''D1'', drv_driverName = ''Alice'', drv_isOnline = True,
               drv_lastSeen = 7, drv_socketId = Some ''sock1''\<rparr>
   \<and> emitted (location_update False 7 True True ''sock9'' example_payload registered_mem)
       = emitted registered_mem @ [LocationUpdate (mk_location example_payload 7)]
   \<and> errors (location_update False 7 True True ''sock9'' example_payload registered_mem) = []
   \<and> locations (location_update False 7 True True ''sock9'' example_payload initial)
       = [mk_location example_payload 7]
   \<and> Location_coll (location_update True 7 True True ''sock9'' example_payload initial)
       = [\<lparr>doc_deviceId = ''D1'', doc_driverName = ''Alice'', doc_latitude = 40.7128,
           doc_longitude = - 74.006, doc_accuracy = 5, doc_speed = 0, doc_heading = 0,
           doc_timestamp = 7, doc_isOnline = True\<rparr>]"
  by (simp add: location_update_def example_payload_valid store_in_memory_def Let_def
      registered_mem_eq findOneAndUpdate_def initial_def)

section \<open>Coordinates out of range\<close>

text \<open>With a durable store configured the schema rejects the sample before anything is
  recorded.\<close>

lemma out_of_range_rejected_with_store:
  assumes "latitude p < - 90 \<or> 90 < latitude p \<or> longitude p < - 180 \<or> 180 < longitude p"
  shows "location_update True now save_ok upd_ok sock p s
           = s\<lparr>errors := errors s @ [''Error saving location'']\<rparr>"
  using assms
  by (auto simp: location_update_def new_Location_def mk_location_def Let_def split: option.splits)

text \<open>So with a durable store every location in memory is within the bounds, from the start
  of the server on.\<close>

lemma set_lastn: "set (lastn k xs) \<subseteq> set xs"
  by (simp add: lastn_def set_drop_subset)

lemma locations_subset_recorded:
  "set (locations (run uri evs (startServer uri dbDrivers dbLocations))) \<subseteq> set (recorded uri evs)"
proof
  fix l assume l: "l \<in> set (locations (run uri evs (startServer uri dbDrivers dbLocations)))"
  let ?s = "run uri evs (startServer uri dbDrivers dbLocations)"
  from l have "l \<in> set (driverLocations (deviceId l) ?s)" by (simp add: driverLocations_def)
  moreover have "driverLocations (deviceId l) ?s
      = lastn 100 (filter (\<lambda>x. deviceId x = deviceId l) (recorded uri evs))"
    using driverLocations_run[of "deviceId l" "startServer uri dbDrivers dbLocations" uri evs] by simp
  ultimately have "l \<in> set (filter (\<lambda>x. deviceId x = deviceId l) (recorded uri evs))"
    using set_lastn by fastforce
  then show "l \<in> set (recorded uri evs)" by simp
qed

lemma new_Location_in_range:
  "new_Location l \<noteq> None \<Longrightarrow>
   - 90 \<le> latitude l \<and> latitude l \<le> 90 \<and> - 180 \<le> longitude l \<and> longitude l \<le> 180"
  by (auto simp: new_Location_def split: option.splits if_splits)

lemma recorded_in_range_with_store:
  assumes "l \<in> set (recorded True evs)"
  shows "- 90 \<le> latitude l \<and> latitude l \<le> 90 \<and> - 180 \<le> longitude l \<and> longitude l \<le> 180"
proof -
  from assms obtain ev where "ev \<in> set evs" and l: "l \<in> set (sample_of True ev)"
    by (auto simp: recorded_def)
  from l obtain sock p now save_ok upd_ok where "l = mk_location p now"
    and "new_Location (mk_location p now) \<noteq> None"
    by (cases ev) (auto simp: accepted_def split: if_splits)
  then show ?thesis using new_Location_in_range[of l] by simp
qed

lemma locations_in_range_with_store:
  assumes "l \<in> set (locations (run True evs (startServer True dbDrivers dbLocations)))"
  shows "- 90 \<le> latitude l \<and> latitude l \<le> 90 \<and> - 180 \<le> longitude l \<and> longitude l \<le> 180"
  using assms locations_subset_recorded[of True evs dbDrivers dbLocations]
    recorded_in_range_with_store[of l evs] by blast

text \<open>
  Claim C3 at a failing input. Without a durable store nothing validates the sample: a
  location event with latitude 91 and longitude 200 is appended to the \<open>locations\<close>
  array, is returned by the history query of its device, and is broadcast.
\<close>

theorem out_of_range_sample_recorded:
  "latitude out_of_range_payload = 91 \<and> longitude out_of_range_payload = 200
   \<and> driverLocations ''D1''
        (location_update False 7 True True ''sock1'' out_of_range_payload registered_mem)
       = [mk_location out_of_range_payload 7]
   \<and> latitude (mk_location out_of_range_payload 7) = 91
   \<and> get_locations_of_device False True ''D1''
        (location_update False 7 True True ''sock1'' out_of_range_payload registered_mem)
       = Json (FromMemory [mk_location out_of_range_payload 7])
   \<and> emitted (location_update False 7 True True ''sock1'' out_of_range_payload registered_mem)
       = emitted registered_mem @ [LocationUpdate (mk_location out_of_range_payload 7)]
   \<and> errors (location_update False 7 True True ''sock1'' out_of_range_payload registered_mem) = []"
  by (simp add: location_update_def store_in_memory_def Let_def registered_mem_eq
      out_of_range_payload_def example_payload_def mk_location_def driverLocations_def
      get_locations_of_device_def)

section \<open>Facts about the collections\<close>

lemma map_update_same_image:
  assumes "map_of coll d = Some doc" and "h (d, doc') = h (d, doc)"
  shows "map h (AList.update d doc' coll) = map h coll"
  using assms
proof (induction coll)
  case Nil then show ?case by simp
next
  case (Cons kv coll)
  then show ?case by (cases kv) (auto split: if_splits)
qed

lemma isActive_updateDriver:
  assumes "\<And>doc. ad_isActive (f doc) = ad_isActive doc"
  shows "map (\<lambda>(d, doc). (d, ad_isActive doc)) (updateDriver d f coll)
       = map (\<lambda>(d, doc). (d, ad_isActive doc)) coll"
  unfolding updateDriver_def
  by (auto split: option.splits intro!: map_update_same_image simp: assms)

lemma map_of_updateDriver:
  "map_of (updateDriver d f coll) k =
     (if k = d then map_option f (map_of coll d) else map_of coll k)"
  by (auto simp: updateDriver_def update_conv' split: option.splits)


lemma map_of_upsertDriver:
  "map_of (upsertDriver d name now coll) k =
     (if k = d then Some \<lparr>ad_driverName = name, ad_isActive = True, ad_lastSeen = now,
                          ad_currentLocation = (case map_of coll d of None \<Rightarrow> None
                              | Some doc \<Rightarrow> ad_currentLocation doc)\<rparr>
      else map_of coll k)"
  by (simp add: upsertDriver_def update_conv')

lemma map_of_findOneAndUpdate:
  "map_of (findOneAndUpdate d f coll) k =
     (if k = d then map_option f (map_of coll d) else map_of coll k)"
  by (auto simp: findOneAndUpdate_def update_conv' split: option.splits)

section \<open>Disconnecting\<close>

lemma active_step:
  assumes "active d s" and "\<not> is_cleanup ev"
  shows "active d (store_step ev s)"
proof (cases ev)
  case (RegisterDriverEv sock d' name now upsert_ok find_ok)
  then show ?thesis using assms
    by (auto simp: active_def registerDriver_def Let_def map_of_upsertDriver split: option.splits)
next
  case (SendLocationEv sock p now save_ok upd_ok)
  then show ?thesis using assms
    by (auto simp: active_def sendLocation_def Let_def map_of_updateDriver split: option.splits)
next
  case (SyncLocationsEv sock ps insert_ok)
  then show ?thesis using assms
    by (auto simp: active_def syncLocations_def Let_def split: option.splits list.splits)
next
  case (DisconnectEv sock now db_ok)
  then show ?thesis using assms
    by (auto simp: active_def disconnect_store_def Let_def map_of_updateDriver split: option.splits)
next
  case (CleanupEv now db_ok)
  then show ?thesis using assms by simp
qed

lemma active_run:
  "active d s \<Longrightarrow> list_all (\<lambda>ev. \<not> is_cleanup ev) evs \<Longrightarrow> active d (store_run evs s)"
  unfolding store_run_def
  by (induction evs arbitrary: s) (simp_all add: active_step)

text \<open>
  Claim C4, as amended. In the store-backed server the \<open>disconnect\<close> handler removes the
  binding of the connection, leaves every other binding alone, refreshes \<open>lastSeen\<close> of
  the bound device when the write succeeds and changes no driver when it fails, touches no
  other driver and no location, sends nothing, and leaves the \<open>isActive\<close> flag of every
  driver as it was; a driver that is active stays active
  through every run of that server without a tick of the cleanup task. In
  \<open>src/server.js\<close> the \<open>disconnect\<close> handler of a connection that registered a device
  with a non-empty id, when no store is configured or the update of the store succeeds,
  sets that driver's \<open>isOnline\<close> to false and \<open>lastSeen\<close> to the current time in the
  \<open>drivers\<close> map and, with a store, in the Driver collection, and broadcasts the driver
  list. When the connection registered no device, or the update of the store fails, it
  changes no driver and broadcasts nothing.
\<close>

theorem disconnect_by_server:
  "map (\<lambda>(d, doc). (d, ad_isActive doc)) (Drivers (disconnect_store now db_ok sock t))
     = map (\<lambda>(d, doc). (d, ad_isActive doc)) (Drivers t)
   \<and> map_of (activeConnections (disconnect_store now db_ok sock t)) sock = None
   \<and> (k \<noteq> sock \<longrightarrow> map_of (activeConnections (disconnect_store now db_ok sock t)) k
                      = map_of (activeConnections t) k)
   \<and> (map_of (activeConnections t) sock = Some info \<and> db_ok \<longrightarrow>
        map_of (Drivers (disconnect_store now db_ok sock t)) (ci_deviceId info)
          = map_option (\<lambda>doc. doc\<lparr>ad_lastSeen := now\<rparr>) (map_of (Drivers t) (ci_deviceId info)))
   \<and> Drivers (disconnect_store now False sock t) = Drivers t
   \<and> (map_of (activeConnections t) sock = Some info \<and> dev \<noteq> ci_deviceId info \<longrightarrow>
        map_of (Drivers (disconnect_store now db_ok sock t)) dev = map_of (Drivers t) dev)
   \<and> (map_of (activeConnections t) sock = None \<longrightarrow> disconnect_store now db_ok sock t = t)
   \<and> Locations (disconnect_store now db_ok sock t) = Locations t
   \<and> io_emitted (disconnect_store now db_ok sock t) = io_emitted t
   \<and> socket_emitted (disconnect_store now db_ok sock t) = socket_emitted t
   \<and> (active dev t \<and> list_all (\<lambda>ev. \<not> is_cleanup ev) evs \<longrightarrow> active dev (store_run evs t))
   \<and> (map_of (socket_deviceId s) sock = Some d \<and> d \<noteq> [] \<and> (uri \<longrightarrow> db_ok)
        \<and> map_of (drivers s) d = Some drv \<longrightarrow>
        map_of (drivers (disconnect uri now db_ok sock s)) d
          = Some (drv\<lparr>drv_isOnline := False, drv_lastSeen := now\<rparr>)
        \<and> emitted (disconnect uri now db_ok sock s)
          = emitted s @ [DriversUpdated (map snd (drivers (disconnect uri now db_ok sock s)))])
   \<and> (map_of (socket_deviceId s) sock = Some d \<and> d \<noteq> [] \<and> db_ok \<longrightarrow>
        map_of (Driver_coll (disconnect True now db_ok sock s)) d
          = map_option (\<lambda>doc. doc\<lparr>dd_isOnline := False, dd_lastSeen := now\<rparr>)
              (map_of (Driver_coll s) d))
   \<and> (map_of (socket_deviceId s) sock = None \<or> map_of (socket_deviceId s) sock = Some []
        \<or> (uri \<and> \<not> db_ok) \<longrightarrow>
        drivers (disconnect uri now db_ok sock s) = drivers s
        \<and> Driver_coll (disconnect uri now db_ok sock s) = Driver_coll s
        \<and> emitted (disconnect uri now db_ok sock s) = emitted s)"
proof (intro conjI impI)
  show "map (\<lambda>(d, doc). (d, ad_isActive doc)) (Drivers (disconnect_store now db_ok sock t))
     = map (\<lambda>(d, doc). (d, ad_isActive doc)) (Drivers t)"
    by (simp add: disconnect_store_def Let_def isActive_updateDriver split: option.splits)
next
  show "map_of (activeConnections (disconnect_store now db_ok sock t)) sock = None"
    by (simp add: disconnect_store_def Let_def delete_conv' split: option.splits)
next
  assume "k \<noteq> sock"
  then show "map_of (activeConnections (disconnect_store now db_ok sock t)) k
                      = map_of (activeConnections t) k"
    by (simp add: disconnect_store_def Let_def delete_conv' split: option.splits)
next
  assume "map_of (activeConnections t) sock = Some info \<and> db_ok"
  then show "map_of (Drivers (disconnect_store now db_ok sock t)) (ci_deviceId info)
          = map_option (\<lambda>doc. doc\<lparr>ad_lastSeen := now\<rparr>) (map_of (Drivers t) (ci_deviceId info))"
    by (simp add: disconnect_store_def Let_def map_of_updateDriver)
next
  show "Drivers (disconnect_store now False sock t) = Drivers t"
    by (simp add: disconnect_store_def Let_def split: option.splits)
next
  assume "map_of (activeConnections t) sock = Some info \<and> dev \<noteq> ci_deviceId info"
  then show "map_of (Drivers (disconnect_store now db_ok sock t)) dev = map_of (Drivers t) dev"
    by (simp add: disconnect_store_def Let_def map_of_updateDriver)
next
  assume "map_of (activeConnections t) sock = None"
  then show "disconnect_store now db_ok sock t = t"
    by (simp add: disconnect_store_def)
next
  show "Locations (disconnect_store now db_ok sock t) = Locations t"
    by (simp add: disconnect_store_def Let_def split: option.splits)
  show "io_emitted (disconnect_store now db_ok sock t) = io_emitted t"
    by (simp add: disconnect_store_def Let_def split: option.splits)
  show "socket_emitted (disconnect_store now db_ok sock t) = socket_emitted t"
    by (simp add: disconnect_store_def Let_def split: option.splits)
next
  assume "active dev t \<and> list_all (\<lambda>ev. \<not> is_cleanup ev) evs"
  then show "active dev (store_run evs t)" by (simp add: active_run)
next
  assume a: "map_of (socket_deviceId s) sock = Some d \<and> d \<noteq> [] \<and> (uri \<longrightarrow> db_ok)
        \<and> map_of (drivers s) d = Some drv"
  then show "map_of (drivers (disconnect uri now db_ok sock s)) d
          = Some (drv\<lparr>drv_isOnline := False, drv_lastSeen := now\<rparr>)"
    by (auto simp: disconnect_def Let_def update_conv')
  from a show "emitted (disconnect uri now db_ok sock s)
          = emitted s @ [DriversUpdated (map snd (drivers (disconnect uri now db_ok sock s)))]"
    by (auto simp: disconnect_def Let_def)
next
  assume "map_of (socket_deviceId s) sock = Some d \<and> d \<noteq> [] \<and> db_ok"
  then show "map_of (Driver_coll (disconnect True now db_ok sock s)) d
          = map_option (\<lambda>doc. doc\<lparr>dd_isOnline := False, dd_lastSeen := now\<rparr>)
              (map_of (Driver_coll s) d)"
    by (auto simp: disconnect_def Let_def map_of_findOneAndUpdate split: option.splits)
next
  assume b: "map_of (socket_deviceId s) sock = None \<or> map_of (socket_deviceId s) sock = Some []
        \<or> (uri \<and> \<not> db_ok)"
  then show "drivers (disconnect uri now db_ok sock s) = drivers s"
    by (auto simp: disconnect_def Let_def split: option.splits)
  from b show "Driver_coll (disconnect uri now db_ok sock s) = Driver_coll s"
    by (auto simp: disconnect_def Let_def split: option.splits)
  from b show "emitted (disconnect uri now db_ok sock s) = emitted s"
    by (auto simp: disconnect_def Let_def split: option.splits)
qed

theorem disconnect_by_server_witness:
  "map_of (activeConnections store_registered) ''sock1''
     = Some \<lparr>ci_deviceId = ''D1'', ci_driverName = ''Alice''\<rparr>
   \<and> map_of (Drivers (disconnect_store 9 True ''sock1'' store_registered)) ''D1''
     = Some \<lparr>ad_driverName = ''Alice'', ad_isActive = True, ad_lastSeen = 9,
             ad_currentLocation = None\<rparr>
   \<and> active ''D1'' store_registered
   \<and> list_all (\<lambda>ev. \<not> is_cleanup ev)
        [SendLocationEv ''sock1'' example_payload 5 True True, DisconnectEv ''sock1'' 9 True]
   \<and> active ''D1'' (store_run
        [SendLocationEv ''sock1'' example_payload 5 True True, DisconnectEv ''sock1'' 9 True]
        store_registered)
   \<and> map_of (socket_deviceId registered_db) ''sock1'' = Some ''D1''
   \<and> map_of (drivers (disconnect True 9 True ''sock1'' registered_db)) ''D1''
     = Some \<lparr>drv_deviceId = ''D1'', drv_driverName = ''Alice'', drv_isOnline = False,
             drv_lastSeen = 9, drv_socketId = Some ''sock1''\<rparr>
   \<and> map_of (Driver_coll (disconnect True 9 True ''sock1'' registered_db)) ''D1''
     = Some \<lparr>dd_driverName = ''Alice'', dd_isOnline = False, dd_lastSeen = 9\<rparr>
   \<and> drivers (disconnect True 9 False ''sock1'' registered_db) = drivers registered_db
   \<and> ''sock2'' \<noteq> ''sock1''
   \<and> map_of (activeConnections (disconnect_store 9 True ''sock1'' store_registered)) ''sock2'' = None"
proof -
  have a: "active ''D1'' store_registered" by (simp add: active_def store_registered_eq)
  have l: "list_all (\<lambda>ev. \<not> is_cleanup ev)
        [SendLocationEv ''sock1'' example_payload 5 True True, DisconnectEv ''sock1'' 9 True]"
    by simp
  show ?thesis
    using disconnect_by_server[where now = 9 and db_ok = True and sock = "''sock1''"
        and t = store_registered and k = "''sock2''"
        and info = "\<lparr>ci_deviceId = ''D1'', ci_driverName = ''Alice''\<rparr>"
        and dev = "''D1''"
        and evs = "[SendLocationEv ''sock1'' example_payload 5 True True, DisconnectEv ''sock1'' 9 True]"
        and s = registered_db and d = "''D1''" and uri = True
        and drv = "\<lparr>drv_deviceId = ''D1'', drv_driverName = ''Alice'', drv_isOnline = True,
             drv_lastSeen = 1, drv_socketId = Some ''sock1''\<rparr>"]
      disconnect_by_server[where now = 9 and db_ok = False and sock = "''sock1''"
        and s = registered_db and uri = True] a l
    by (simp add: store_registered_eq registered_db_eq)
qed

theorem disconnect_sets_offline_counterexample:
  "map_of (drivers registered_mem) ''D1''
     = Some \<lparr>drv_deviceId = ''D1'', drv_driverName = ''Alice'', drv_isOnline = True,
             drv_lastSeen = 1, drv_socketId = Some ''sock1''\<rparr>
   \<and> map_of (drivers (disconnect False 9 True ''sock1'' registered_mem)) ''D1''
     = Some \<lparr>drv_deviceId = ''D1'', drv_driverName = ''Alice'', drv_isOnline = False,
             drv_lastSeen = 9, drv_socketId = Some ''sock1''\<rparr>
   \<and> map_of (Driver_coll (disconnect True 9 True ''sock1'' registered_db)) ''D1''
     = Some \<lparr>dd_driverName = ''Alice'', dd_isOnline = False, dd_lastSeen = 9\<rparr>"
  by (simp add: disconnect_def registered_mem_eq registered_db_eq Let_def findOneAndUpdate_def)

section \<open>The time stamp of a live sample\<close>

lemma last_driverLocations_store:
  "last (driverLocations (deviceId loc) (store_in_memory now loc s)) = loc"
proof (cases "100 \<le> length (driverLocations (deviceId loc) s)")
  case True
  then have "driverLocations (deviceId loc) s \<noteq> []" by auto
  then have "tl (driverLocations (deviceId loc) s @ [loc]) = tl (driverLocations (deviceId loc) s) @ [loc]"
    by simp
  then show ?thesis using True by (simp add: driverLocations_store_same)
next
  case False
  then show ?thesis by (simp add: driverLocations_store_same)
qed

lemma Location_coll_location_update:
  "uri \<Longrightarrow> accepted uri now save_ok upd_ok p \<Longrightarrow>
   Location_coll (location_update uri now save_ok upd_ok sock p s)
     = Location_coll s @ [the (new_Location (mk_location p now))]"
  by (auto simp: location_update_def accepted_def Let_def store_in_memory_def split: option.splits)

lemma new_Location_stamp:
  "new_Location l = Some doc \<Longrightarrow> doc_timestamp doc = timestamp l \<and> doc_isOnline doc = isOnline l"
  by (auto simp: new_Location_def split: option.splits if_splits)

text \<open>The bulk path \<open>syncLocations\<close> stores the time stamps the client sent, with
  \<open>isOnline\<close> false.\<close>

lemma syncLocations_keeps_client_timestamps:
  assumes "map_of (activeConnections t) sock = Some info" and "ci_deviceId info \<noteq> []"
    and "list_all (\<lambda>q. clientTimestamp q \<noteq> None) ps"
  shows "Locations (syncLocations True sock ps t)
           = Locations t @ map (\<lambda>q. the (store_Location q (ci_deviceId info) False)) ps
       \<and> map doc_timestamp (map (\<lambda>q. the (store_Location q (ci_deviceId info) False)) ps)
           = map (\<lambda>q. the (clientTimestamp q)) ps
       \<and> list_all (\<lambda>doc. \<not> doc_isOnline doc)
            (map (\<lambda>q. the (store_Location q (ci_deviceId info) False)) ps)"
proof -
  let ?docs = "map (\<lambda>loc. store_Location loc (ci_deviceId info) False) ps"
  have those: "those ?docs = Some (map the ?docs)"
    using assms(2,3) by (induction ps) (auto simp: store_Location_def)
  have 1: "Locations (syncLocations True sock ps t)
           = Locations t @ map (\<lambda>q. the (store_Location q (ci_deviceId info) False)) ps"
    using assms(1) those by (cases ps) (simp_all add: syncLocations_def Let_def comp_def)
  have 2: "map doc_timestamp (map (\<lambda>q. the (store_Location q (ci_deviceId info) False)) ps)
           = map (\<lambda>q. the (clientTimestamp q)) ps"
    using assms(2,3) by (induction ps) (auto simp: store_Location_def)
  have 3: "list_all (\<lambda>doc. \<not> doc_isOnline doc)
            (map (\<lambda>q. the (store_Location q (ci_deviceId info) False)) ps)"
    using assms(2,3) by (induction ps) (auto simp: store_Location_def)
  show ?thesis using 1 2 3 by simp
qed

text \<open>
  Claim C10, as amended. A sample recorded by the \<open>location-update\<close> handler of
  \<open>src/server.js\<close> carries the clock reading of the handler as its time stamp and
  \<open>isOnline = true\<close>, in memory and in the durable store, whatever \<open>timestamp\<close> and
  \<open>isOnline\<close> the client sent. The \<open>sendLocation\<close> handler of the store-backed server
  is a live path too, and it records the time stamp the client sent, with
  \<open>isOnline = true\<close>.
\<close>

theorem live_sample_stamp:
  "(accepted uri now save_ok upd_ok p \<longrightarrow>
      last (driverLocations (deviceId p) (location_update uri now save_ok upd_ok sock p s))
        = mk_location p now
      \<and> timestamp (mk_location p now) = now \<and> isOnline (mk_location p now) = True
      \<and> (uri \<longrightarrow>
           doc_timestamp (last (Location_coll (location_update uri now save_ok upd_ok sock p s))) = now
         \<and> doc_isOnline (last (Location_coll (location_update uri now save_ok upd_ok sock p s))) = True))
   \<and> (map_of (activeConnections t) sock = Some info \<and> ci_deviceId info \<noteq> []
        \<and> clientTimestamp p = Some ct \<and> save_ok \<longrightarrow>
        doc_timestamp (last (Locations (sendLocation now save_ok upd_ok sock p t))) = ct
      \<and> doc_isOnline (last (Locations (sendLocation now save_ok upd_ok sock p t))) = True)"
proof (intro conjI impI)
  assume a: "accepted uri now save_ok upd_ok p"
  have "driverLocations (deviceId p) (location_update uri now save_ok upd_ok sock p s)
        = driverLocations (deviceId p) (store_in_memory now (mk_location p now) s)"
    using a by (simp add: driverLocations_def locations_location_update)
  then show "last (driverLocations (deviceId p) (location_update uri now save_ok upd_ok sock p s))
        = mk_location p now"
    using last_driverLocations_store[of "mk_location p now" now s] by simp
  show "timestamp (mk_location p now) = now" by (simp add: mk_location_def)
  show "isOnline (mk_location p now) = True" by (simp add: mk_location_def)
  assume u: uri
  from a u obtain doc where doc: "new_Location (mk_location p now) = Some doc"
    by (auto simp: accepted_def)
  then have st: "doc_timestamp doc = now \<and> doc_isOnline doc = True"
    using new_Location_stamp[OF doc] by (simp add: mk_location_def)
  have "last (Location_coll (location_update uri now save_ok upd_ok sock p s)) = doc"
    using Location_coll_location_update[OF u a] doc by simp
  then show "doc_timestamp (last (Location_coll (location_update uri now save_ok upd_ok sock p s))) = now"
    and "doc_isOnline (last (Location_coll (location_update uri now save_ok upd_ok sock p s))) = True"
    using st by simp_all
next
  assume b: "map_of (activeConnections t) sock = Some info \<and> ci_deviceId info \<noteq> []
        \<and> clientTimestamp p = Some ct \<and> save_ok"
  then show "doc_timestamp (last (Locations (sendLocation now save_ok upd_ok sock p t))) = ct"
    and "doc_isOnline (last (Locations (sendLocation now save_ok upd_ok sock p t))) = True"
    by (auto simp: sendLocation_def store_Location_def Let_def)
qed

theorem live_sample_stamp_witness:
  "accepted True 7 True True example_payload
   \<and> last (driverLocations ''D1'' (location_update True 7 True True ''sock1'' example_payload registered_db))
       = mk_location example_payload 7
   \<and> clientTimestamp example_payload = Some 1
   \<and> timestamp (mk_location example_payload 7) = 7
   \<and> doc_timestamp (last (Location_coll
        (location_update True 7 True True ''sock1'' example_payload registered_db))) = 7
   \<and> map_of (activeConnections store_registered) ''sock1''
       = Some \<lparr>ci_deviceId = ''D1'', ci_driverName = ''Alice''\<rparr>
   \<and> doc_timestamp (last (Locations
        (sendLocation 7 True True ''sock1'' example_payload store_registered))) = 1"
proof -
  have a: "accepted True 7 True True example_payload"
    by (simp add: accepted_def example_payload_valid)
  have c: "clientTimestamp example_payload = Some 1" by (simp add: example_payload_def)
  have m: "map_of (activeConnections store_registered) ''sock1''
       = Some \<lparr>ci_deviceId = ''D1'', ci_driverName = ''Alice''\<rparr>"
    by (simp add: store_registered_eq)
  show ?thesis
    using live_sample_stamp[of True 7 True True example_payload "''sock1''" registered_db
        store_registered "\<lparr>ci_deviceId = ''D1'', ci_driverName = ''Alice''\<rparr>" 1] a c m
    by simp
qed

theorem sendLocation_keeps_client_timestamp_counterexample:
  "clientTimestamp example_payload = Some 1
   \<and> Locations (sendLocation 7 True True ''sock1'' example_payload store_registered)
       = [\<lparr>doc_deviceId = ''D1'', doc_driverName = ''Alice'', doc_latitude = 40.7128,
           doc_longitude = - 74.006, doc_accuracy = 5, doc_speed = 0, doc_heading = 0,
           doc_timestamp = 1, doc_isOnline = True\<rparr>]"
  by (simp add: sendLocation_def store_Location_def Let_def store_registered_eq example_payload_def)

section \<open>The periodic cleanup\<close>













section \<open>Registering twice\<close>

lemma one_entry_of_key:
  "distinct (map fst al) \<Longrightarrow> k \<in> fst ` set al \<Longrightarrow> length (filter (\<lambda>kv. fst kv = k) al) = 1"
proof (induction al)
  case Nil then show ?case by simp
next
  case (Cons a al)
  show ?case
  proof (cases "fst a = k")
    case True
    with Cons.prems have "k \<notin> fst ` set al" by auto
    then have "filter (\<lambda>kv. fst kv = k) al = []" by (auto simp: filter_empty_conv)
    with True show ?thesis by simp
  next
    case False
    with Cons show ?thesis by auto
  qed
qed

lemma one_entry_after_update:
  "distinct (map fst al) \<Longrightarrow> length (filter (\<lambda>kv. fst kv = k) (AList.update k v al)) = 1"
  by (rule one_entry_of_key) (simp_all add: distinct_update dom_update)

lemma map_update_image_cong:
  "h (k, v') = h (k, v) \<Longrightarrow> map h (AList.update k v' al) = map h (AList.update k v al)"
  by (induction al) auto

text \<open>
  Claim C9. After a registration of device \<open>d\<close> under \<open>name\<close> that succeeded, a second
  registration of the same device under the same name, on the same or on another
  connection and whether or not its write to the store succeeds, leaves exactly one entry
  for \<open>d\<close> in the \<open>drivers\<close> map, with \<open>isOnline\<close> true; the map is the one the first
  registration left but for \<open>lastSeen\<close> and the socket the entry names, the \<open>locations\<close>
  array is untouched, and on the same connection the binding of the socket is the same.
  With a durable store the Driver collection has exactly one document for \<open>d\<close>, online, and
  is the same but for \<open>lastSeen\<close>. The same holds for the \<open>registerDriver\<close> handler of
  the store-backed server and its \<open>isActive\<close> flag. The keys of the map and of the
  collections are distinct to begin with, as they are in a \<open>Map\<close> and under a unique
  index.
\<close>

theorem register_twice:
  fixes s :: state and t :: store_state and uri db_ok find1 upsert2 find2 :: bool
    and now1 now2 :: int and sock1 sock2 d name :: string
  defines "s1 \<equiv> register_driver uri now1 True sock1 d name s"
  defines "s2 \<equiv> register_driver uri now2 db_ok sock2 d name s1"
  defines "t1 \<equiv> registerDriver now1 True find1 sock1 d name t"
  defines "t2 \<equiv> registerDriver now2 upsert2 find2 sock2 d name t1"
  assumes ds: "distinct (map fst (drivers s))" and dc: "distinct (map fst (Driver_coll s))"
    and dt: "distinct (map fst (Drivers t))"
  shows "length (filter (\<lambda>kv. fst kv = d) (drivers s2)) = 1
       \<and> map_option drv_isOnline (map_of (drivers s2) d) = Some True
       \<and> map (\<lambda>(k, v). (k, v\<lparr>drv_lastSeen := 0, drv_socketId := None\<rparr>)) (drivers s2)
           = map (\<lambda>(k, v). (k, v\<lparr>drv_lastSeen := 0, drv_socketId := None\<rparr>)) (drivers s1)
       \<and> locations s2 = locations s1
       \<and> (sock2 = sock1 \<longrightarrow> socket_deviceId s2 = socket_deviceId s1)
       \<and> (uri \<longrightarrow> length (filter (\<lambda>kv. fst kv = d) (Driver_coll s2)) = 1
                 \<and> map_option dd_isOnline (map_of (Driver_coll s2) d) = Some True
                 \<and> map (\<lambda>(k, v). (k, v\<lparr>dd_lastSeen := 0\<rparr>)) (Driver_coll s2)
                     = map (\<lambda>(k, v). (k, v\<lparr>dd_lastSeen := 0\<rparr>)) (Driver_coll s1))
       \<and> length (filter (\<lambda>kv. fst kv = d) (Drivers t2)) = 1
       \<and> map_option ad_isActive (map_of (Drivers t2) d) = Some True
       \<and> map (\<lambda>(k, v). (k, v\<lparr>ad_lastSeen := 0\<rparr>)) (Drivers t2)
           = map (\<lambda>(k, v). (k, v\<lparr>ad_lastSeen := 0\<rparr>)) (Drivers t1)
       \<and> (sock2 = sock1 \<longrightarrow> activeConnections t2 = activeConnections t1)"
proof -
  let ?rec1 = "\<lparr>drv_deviceId = d, drv_driverName = name, drv_isOnline = True,
            drv_lastSeen = now1, drv_socketId = Some sock1\<rparr>"
  let ?rec2 = "\<lparr>drv_deviceId = d, drv_driverName = name, drv_isOnline = True,
            drv_lastSeen = now2, drv_socketId = Some sock2\<rparr>"
  have d1: "drivers s1 = AList.update d ?rec1 (drivers s)"
    by (simp add: s1_def register_driver_def Let_def)
  have d2: "drivers s2 = drivers s1 \<or> drivers s2 = AList.update d ?rec2 (drivers s1)"
    by (simp add: s2_def register_driver_def Let_def)
  have dist1: "distinct (map fst (drivers s1))"
    using ds by (simp add: d1 distinct_update)
  have m1: "map_of (drivers s1) d = Some ?rec1" by (simp add: d1 update_conv')
  have c1: "length (filter (\<lambda>kv. fst kv = d) (drivers s2)) = 1"
    using d2 dist1 ds by (auto simp: d1 one_entry_after_update)
  have c2: "map_option drv_isOnline (map_of (drivers s2) d) = Some True"
    using d2 m1 by (auto simp: update_conv')
  have c3: "map (\<lambda>(k, v). (k, v\<lparr>drv_lastSeen := 0, drv_socketId := None\<rparr>)) (drivers s2)
           = map (\<lambda>(k, v). (k, v\<lparr>drv_lastSeen := 0, drv_socketId := None\<rparr>)) (drivers s1)"
    using d2 by (auto simp: d1 intro!: map_update_image_cong)
  have c4: "locations s2 = locations s1"
    by (simp add: s2_def register_driver_def Let_def)
  have c5: "sock2 = sock1 \<longrightarrow> socket_deviceId s2 = socket_deviceId s1"
    by (simp add: s2_def s1_def register_driver_def Let_def)
  have c6: "uri \<longrightarrow> length (filter (\<lambda>kv. fst kv = d) (Driver_coll s2)) = 1
                 \<and> map_option dd_isOnline (map_of (Driver_coll s2) d) = Some True
                 \<and> map (\<lambda>(k, v). (k, v\<lparr>dd_lastSeen := 0\<rparr>)) (Driver_coll s2)
                     = map (\<lambda>(k, v). (k, v\<lparr>dd_lastSeen := 0\<rparr>)) (Driver_coll s1)"
  proof
    assume u: uri
    let ?doc1 = "\<lparr>dd_driverName = name, dd_isOnline = True, dd_lastSeen = now1\<rparr>"
    let ?doc2 = "\<lparr>dd_driverName = name, dd_isOnline = True, dd_lastSeen = now2\<rparr>"
    have e1: "Driver_coll s1 = AList.update d ?doc1 (Driver_coll s)"
      using u by (simp add: s1_def register_driver_def Let_def)
    have e2: "Driver_coll s2 = Driver_coll s1 \<or> Driver_coll s2 = AList.update d ?doc2 (Driver_coll s1)"
      using u by (simp add: s2_def register_driver_def Let_def)
    have "length (filter (\<lambda>kv. fst kv = d) (Driver_coll s2)) = 1"
      using e2 dc by (auto simp: e1 one_entry_after_update distinct_update)
    moreover have "map_option dd_isOnline (map_of (Driver_coll s2) d) = Some True"
      using e2 by (auto simp: e1 update_conv')
    moreover have "map (\<lambda>(k, v). (k, v\<lparr>dd_lastSeen := 0\<rparr>)) (Driver_coll s2)
                     = map (\<lambda>(k, v). (k, v\<lparr>dd_lastSeen := 0\<rparr>)) (Driver_coll s1)"
      using e2 by (auto simp: e1 intro!: map_update_image_cong)
    ultimately show "length (filter (\<lambda>kv. fst kv = d) (Driver_coll s2)) = 1
                 \<and> map_option dd_isOnline (map_of (Driver_coll s2) d) = Some True
                 \<and> map (\<lambda>(k, v). (k, v\<lparr>dd_lastSeen := 0\<rparr>)) (Driver_coll s2)
                     = map (\<lambda>(k, v). (k, v\<lparr>dd_lastSeen := 0\<rparr>)) (Driver_coll s1)"
      by simp
  qed
  let ?a1 = "\<lparr>ad_driverName = name, ad_isActive = True, ad_lastSeen = now1,
        ad_currentLocation = (case map_of (Drivers t) d of None \<Rightarrow> None
                              | Some doc \<Rightarrow> ad_currentLocation doc)\<rparr>"
  have f1: "Drivers t1 = AList.update d ?a1 (Drivers t)"
    by (simp add: t1_def registerDriver_def Let_def upsertDriver_def)
  have f2: "Drivers t2 = Drivers t1 \<or> Drivers t2 = AList.update d (?a1\<lparr>ad_lastSeen := now2\<rparr>) (Drivers t1)"
    by (simp add: t2_def registerDriver_def Let_def upsertDriver_def f1 update_conv')
  have c7: "length (filter (\<lambda>kv. fst kv = d) (Drivers t2)) = 1"
    using f2 dt by (auto simp: f1 one_entry_after_update distinct_update)
  have c8: "map_option ad_isActive (map_of (Drivers t2) d) = Some True"
    using f2 by (auto simp: f1 update_conv')
  have c9: "map (\<lambda>(k, v). (k, v\<lparr>ad_lastSeen := 0\<rparr>)) (Drivers t2)
           = map (\<lambda>(k, v). (k, v\<lparr>ad_lastSeen := 0\<rparr>)) (Drivers t1)"
    using f2 by (auto simp: f1 intro!: map_update_image_cong)
  have c10: "sock2 = sock1 \<longrightarrow> activeConnections t2 = activeConnections t1"
    by (simp add: t2_def t1_def registerDriver_def Let_def)
  show ?thesis using c1 c2 c3 c4 c5 c6 c7 c8 c9 c10 by blast
qed

theorem register_twice_witness:
  "distinct (map fst (drivers initial)) \<and> distinct (map fst (Driver_coll initial))
   \<and> distinct (map fst (Drivers store_initial))
   \<and> drivers (register_driver True 5 True ''sock2'' ''D1'' ''Alice''
        (register_driver True 1 True ''sock1'' ''D1'' ''Alice'' initial))
       = [(''D1'', \<lparr>drv_deviceId = ''D1'', drv_driverName = ''Alice'', drv_isOnline = True,
                    drv_lastSeen = 5, drv_socketId = Some ''sock2''\<rparr>)]
   \<and> length (filter (\<lambda>kv. fst kv = ''D1'')
        (drivers (register_driver True 5 True ''sock2'' ''D1'' ''Alice''
          (register_driver True 1 True ''sock1'' ''D1'' ''Alice'' initial)))) = 1
   \<and> length (filter (\<lambda>kv. fst kv = ''D1'')
        (Driver_coll (register_driver True 5 True ''sock2'' ''D1'' ''Alice''
          (register_driver True 1 True ''sock1'' ''D1'' ''Alice'' initial)))) = 1
   \<and> length (filter (\<lambda>kv. fst kv = ''D1'')
        (Drivers (registerDriver 5 True True ''sock2'' ''D1'' ''Alice''
          (registerDriver 1 True True ''sock1'' ''D1'' ''Alice'' store_initial)))) = 1"
proof -
  have h: "distinct (map fst (drivers initial))" "distinct (map fst (Driver_coll initial))"
    "distinct (map fst (Drivers store_initial))"
    by (simp_all add: initial_def store_initial_def)
  have e: "drivers (register_driver True 5 True ''sock2'' ''D1'' ''Alice''
        (register_driver True 1 True ''sock1'' ''D1'' ''Alice'' initial))
       = [(''D1'', \<lparr>drv_deviceId = ''D1'', drv_driverName = ''Alice'', drv_isOnline = True,
                    drv_lastSeen = 5, drv_socketId = Some ''sock2''\<rparr>)]"
    by (simp add: register_driver_def initial_def Let_def)
  show ?thesis
    using register_twice[OF h, where uri = True and ?now1.0 = 1 and ?now2.0 = 5 and db_ok = True
        and ?sock1.0 = "''sock1''" and ?sock2.0 = "''sock2''" and d = "''D1''" and name = "''Alice''"
        and ?find1.0 = True and ?upsert2.0 = True and ?find2.0 = True] h e
    by simp
qed

section \<open>The latest location of every device\<close>

subsection \<open>The keys of the \<open>drivers\<close> map along a run\<close>

lemma keys_store_in_memory: "map fst (drivers (store_in_memory now loc s)) = map fst (drivers s)"
  by (auto simp: store_in_memory_def Let_def update_keys map_of_eq_None_iff split: option.splits
      dest!: map_of_SomeD intro: rev_image_eqI)



lemma distinct_step:
  "distinct (map fst (drivers s)) \<Longrightarrow> distinct (map fst (drivers (step uri ev s)))"
proof (cases ev)
  case (RegisterDriver sock d name now db_ok)
  assume "distinct (map fst (drivers s))"
  then show ?thesis using RegisterDriver by (auto simp: register_driver_def Let_def distinct_update)
next
  case (LocationUpdateEv sock p now save_ok upd_ok)
  assume "distinct (map fst (drivers s))"
  then show ?thesis using LocationUpdateEv
    by (auto simp: location_update_def Let_def keys_store_in_memory split: option.splits)
next
  case (Disconnect sock now db_ok)
  assume "distinct (map fst (drivers s))"
  then show ?thesis using Disconnect
    by (auto simp: disconnect_def Let_def distinct_update split: option.splits)
qed

lemma distinct_run:
  "distinct (map fst (drivers s)) \<Longrightarrow> distinct (map fst (drivers (run uri evs s)))"
  unfolding run_def
  by (induction evs arbitrary: s) (simp_all add: distinct_step)

text \<open>The keys are distinct in every state the server reaches.\<close>

lemma distinct_fold_update:
  "distinct (map fst acc) \<Longrightarrow>
   distinct (map fst (fold (\<lambda>(d, doc). AList.update d (g d doc)) xs acc))"
  by (induction xs arbitrary: acc) (auto simp: distinct_update)

lemma distinct_drivers_startServer:
  "distinct (map fst (drivers (startServer uri dbDrivers dbLocations)))"
proof (cases uri)
  case True
  have "distinct (map fst (fold (\<lambda>(d, doc). AList.update d
            \<lparr>drv_deviceId = d, drv_driverName = dd_driverName doc,
             drv_isOnline = dd_isOnline doc, drv_lastSeen = dd_lastSeen doc,
             drv_socketId = None\<rparr>)
          (filter (\<lambda>(d, doc). dd_isOnline doc) dbDrivers) []))"
    by (rule distinct_fold_update) simp
  then show ?thesis using True by (simp add: startServer_def initial_def)
next
  case False
  then show ?thesis by (simp add: startServer_def initial_def)
qed

lemma distinct_drivers_reachable:
  "distinct (map fst (drivers (run uri evs (startServer uri dbDrivers dbLocations))))"
  by (rule distinct_run) (rule distinct_drivers_startServer)

subsection \<open>The memory branch\<close>











subsection \<open>The aggregation of the durable branch\<close>









lemma drivers_initial [simp]: "drivers initial = []"
  by (simp add: initial_def)







section \<open>The history of one device\<close>

subsection \<open>Sorting by descending time stamp\<close>



subsection \<open>What a run leaves in the collections\<close>

lemma Location_coll_store_in_memory [simp]:
  "Location_coll (store_in_memory now loc s) = Location_coll s"
  by (simp add: store_in_memory_def Let_def)


















end
